theory Spec2Isabelle
  imports Complex_Main
begin

section \<open>JavaScript values\<close>

text \<open>
  A JavaScript string is a sequence of UTF-16 code units; \<open>length\<close>, \<open>trim\<close> and
  \<open>includes\<close> work on code units. The Cyrillic literals of the source are written as
  their code units, the ASCII ones through \<open>ascii\<close>.
\<close>

type_synonym jsstring = "nat list"

definition ascii :: "string \<Rightarrow> jsstring" where
  "ascii s = map of_char s"

text \<open>
  A JavaScript number that can also be \<open>NaN\<close> or an infinity. The comparison operators
  are exact on the values of two doubles, and every comparison with \<open>NaN\<close> is false.
\<close>

datatype jsnum = NaN | NegInfinity | Finite real | PosInfinity

fun js_lt :: "jsnum \<Rightarrow> jsnum \<Rightarrow> bool" where
  "js_lt NaN b = False"
| "js_lt a NaN = False"
| "js_lt a NegInfinity = False"
| "js_lt PosInfinity b = False"
| "js_lt NegInfinity b = True"
| "js_lt (Finite x) PosInfinity = True"
| "js_lt (Finite x) (Finite y) = (x < y)"

definition js_gt :: "jsnum \<Rightarrow> jsnum \<Rightarrow> bool" where
  "js_gt a b = js_lt b a"

fun js_le :: "jsnum \<Rightarrow> jsnum \<Rightarrow> bool" where
  "js_le NaN b = False"
| "js_le a NaN = False"
| "js_le NegInfinity b = True"
| "js_le a PosInfinity = True"
| "js_le PosInfinity b = False"
| "js_le (Finite x) NegInfinity = False"
| "js_le (Finite x) (Finite y) = (x \<le> y)"

definition isNaN :: "jsnum \<Rightarrow> bool" where
  "isNaN n = (n = NaN)"

section \<open>Progress percentage (utils: \<open>calculatePercentage\<close>, dashboard: \<open>renderGoalCard\<close>)\<close>

text \<open>
  Amounts are finite numbers, modelled as reals. Every arithmetic operation of the source
  on doubles is the exact operation followed by the rounding of the double format; that
  rounding is the parameter \<open>fl\<close>. \<open>Math.round\<close> gives the nearest integer, a tie
  going up, and needs no rounding of its own; neither does \<open>Math.min\<close>.
\<close>

definition Math_round :: "real \<Rightarrow> real" where
  "Math_round x = of_int \<lfloor>x + 1 / 2\<rfloor>"

text \<open>
  \<^verbatim>\<open>if (total === 0) return 0;
  return Math.min(Math.round((current / total) * 100), 100);\<close>
\<close>

definition calculatePercentage :: "(real \<Rightarrow> real) \<Rightarrow> real \<Rightarrow> real \<Rightarrow> real" where
  "calculatePercentage fl current totl =
     (if totl = 0 then 0
      else min (Math_round (fl (fl (current / totl) * 100))) 100)"

text \<open>
  The progress of a goal card, \<^verbatim>\<open>Math.min(Math.round((goal.current_amount /
  goal.target_amount) * 100), 100)\<close>, has no guard. With the target 0 the division gives
  \<open>Infinity\<close>, \<open>NaN\<close> or \<open>-Infinity\<close> for a positive, zero or negative current
  amount; the multiplication and \<open>Math.round\<close> keep them, and \<open>Math.min\<close> gives 100,
  \<open>NaN\<close> and \<open>-Infinity\<close>. (The reals have one zero; for the double \<open>-0\<close> as target
  the two infinities change places.)
\<close>

definition goalProgress :: "(real \<Rightarrow> real) \<Rightarrow> real \<Rightarrow> real \<Rightarrow> jsnum" where
  "goalProgress fl current_amount target_amount =
     (if target_amount = 0 then
        (if 0 < current_amount then Finite 100
         else if current_amount = 0 then NaN
         else NegInfinity)
      else Finite (min (Math_round (fl (fl (current_amount / target_amount) * 100))) 100))"

section \<open>Validators (\<open>validateNumber\<close>)\<close>

record validation =
  ok :: bool
  message :: jsstring

text \<open>The three messages of \<open>validateNumber\<close>; the last two are followed by the bound.\<close>

definition msg_not_a_number :: jsstring where
  "msg_not_a_number =
     [1042, 1074, 1077, 1076, 1080, 1090, 1077, 32, 1082, 1086, 1088, 1088, 1077, 1082, 1090,
      1085, 1086, 1077, 32, 1095, 1080, 1089, 1083, 1086]"

definition msg_minimum :: jsstring where
  "msg_minimum =
     [1052, 1080, 1085, 1080, 1084, 1072, 1083, 1100, 1085, 1086, 1077, 32, 1079, 1085, 1072,
      1095, 1077, 1085, 1080, 1077, 58, 32]"

definition msg_maximum :: jsstring where
  "msg_maximum =
     [1052, 1072, 1082, 1089, 1080, 1084, 1072, 1083, 1100, 1085, 1086, 1077, 32, 1079, 1085,
      1072, 1095, 1077, 1085, 1080, 1077, 58, 32]"

text \<open>
  \<open>validateNumber(value, min = null, max = null)\<close>. The platform's \<open>parseFloat\<close> and
  the conversion of a number to a string in a template literal are parameters; a bound
  is \<open>None\<close> for \<open>null\<close> (also the default of a missing argument).
\<close>

definition validateNumber ::
  "('v \<Rightarrow> jsnum) \<Rightarrow> (jsnum \<Rightarrow> jsstring) \<Rightarrow> 'v \<Rightarrow> jsnum option \<Rightarrow> jsnum option \<Rightarrow> validation" where
  "validateNumber parseFloat toString v mn mx =
     (let num = parseFloat v;
          passed = \<lparr>ok = True, message = []\<rparr>;
          check_max =
            (case mx of
               None \<Rightarrow> passed
             | Some m \<Rightarrow>
                 if js_gt num m then \<lparr>ok = False, message = msg_maximum @ toString m\<rparr>
                 else passed)
      in if isNaN num then \<lparr>ok = False, message = msg_not_a_number\<rparr>
         else (case mn of
                 None \<Rightarrow> check_max
               | Some m \<Rightarrow>
                   if js_lt num m then \<lparr>ok = False, message = msg_minimum @ toString m\<rparr>
                   else check_max))"

section \<open>Voice adapter (\<open>speech.js\<close>)\<close>

text \<open>
  A callback passed to the adapter is a function value of the caller; the model names it
  by a handle and records each invocation, with its argument, as an effect. A missing
  callback (\<open>undefined\<close>) is \<open>None\<close>.
\<close>

type_synonym callback = nat

datatype effect =
    Invoke callback jsstring
  | RecognitionStart
  | RecognitionStop

text \<open>
  The recognition object that \<open>init\<close> creates and configures. Its three handlers are
  assigned together by \<open>startListening\<close> and close over the two callbacks of that call:
  \<open>handlers\<close> is \<open>None\<close> until then and afterwards holds \<open>(onResult, onError)\<close>.
\<close>

record recognizer =
  lang :: jsstring
  continuous :: bool
  interimResults :: bool
  maxAlternatives :: nat
  handlers :: "(callback option \<times> callback option) option"

record utterance =
  utterance_text :: jsstring
  utterance_lang :: jsstring
  rate :: real
  pitch :: real
  volume :: real
  utterance_onend :: "callback option"

text \<open>
  The module's four variables and what it reads of the platform: whether the page offers
  speech recognition (\<open>isSupported\<close>), and \<open>window.speechSynthesis\<close>, which is
  \<open>None\<close> where the platform has none and otherwise its queue of utterances
  (\<open>cancel\<close> empties the queue, \<open>speak\<close> appends to it). A recognition object that a
  later \<open>init\<close> has replaced is no longer the module's, but it keeps the handlers
  assigned to it and the platform can still fire its events: \<open>replaced\<close> lists these
  objects, oldest first.
\<close>

record speech_state =
  supported :: bool
  recognition :: "recognizer option"
  replaced :: "recognizer list"
  synthesis :: "utterance list option"
  isListening :: bool
  isSpeechEnabled :: bool

definition isSupported :: "speech_state \<Rightarrow> bool" where
  "isSupported s = supported s"

definition ru_RU :: jsstring where
  "ru_RU = ascii ''ru-RU''"

definition new_recognition :: recognizer where
  "new_recognition =
     \<lparr>lang = ru_RU, continuous = False, interimResults = False, maxAlternatives = 1,
      handlers = None\<rparr>"

text \<open>\<open>init\<close> returns the new state and its boolean result.\<close>

definition init_speech :: "speech_state \<Rightarrow> speech_state \<times> bool" where
  "init_speech s =
     (if \<not> isSupported s then (s, False)
      else (s\<lparr>recognition := Some new_recognition,
              replaced := replaced s @ (case recognition s of None \<Rightarrow> [] | Some r \<Rightarrow> [r])\<rparr>,
            True))"

definition msg_not_supported :: jsstring where
  "msg_not_supported = ascii ''Speech recognition not supported''"

definition invoke :: "callback option \<Rightarrow> jsstring \<Rightarrow> effect list" where
  "invoke cb arg = (case cb of None \<Rightarrow> [] | Some f \<Rightarrow> [Invoke f arg])"

text \<open>
  \<open>startListening\<close> from its second \<open>if\<close> on. \<open>start_throws\<close> is what the platform's
  \<open>recognition.start()\<close> does in this call: \<open>None\<close> when it returns, \<open>Some m\<close> when it
  throws an error with message \<open>m\<close>. Assigning the handlers changes the recognition
  object in place.
\<close>

definition startListening_with ::
  "callback option \<Rightarrow> callback option \<Rightarrow> jsstring option \<Rightarrow> speech_state
     \<Rightarrow> speech_state \<times> effect list" where
  "startListening_with onResult onError start_throws s =
     (if isListening s then (s, [])
      else
        let s1 = s\<lparr>isListening := True\<rparr>;
            s2 = s1\<lparr>recognition :=
                      map_option (\<lambda>r. r\<lparr>handlers := Some (onResult, onError)\<rparr>) (recognition s1)\<rparr>
        in (case start_throws of
              None \<Rightarrow> (s2, [RecognitionStart])
            | Some m \<Rightarrow> (s2\<lparr>isListening := False\<rparr>, RecognitionStart # invoke onError m)))"

definition startListening ::
  "callback option \<Rightarrow> callback option \<Rightarrow> jsstring option \<Rightarrow> speech_state
     \<Rightarrow> speech_state \<times> effect list" where
  "startListening onResult onError start_throws s =
     (if recognition s = None then
        (case init_speech s of
           (s1, False) \<Rightarrow> (s1, invoke onError msg_not_supported)
         | (s1, True) \<Rightarrow> startListening_with onResult onError start_throws s1)
      else startListening_with onResult onError start_throws s)"

definition stopListening :: "speech_state \<Rightarrow> speech_state \<times> effect list" where
  "stopListening s =
     (if recognition s \<noteq> None \<and> isListening s
      then (s\<lparr>isListening := False\<rparr>, [RecognitionStop])
      else (s, []))"

definition getIsListening :: "speech_state \<Rightarrow> bool" where
  "getIsListening s = isListening s"

text \<open>
  The three handlers that \<open>startListening\<close> installs, run when the platform fires the
  event on a recognition object: a final transcript, an error with its code, the end of
  the session. The handlers are those assigned to the object that fires, which is the
  module's current object (\<open>None\<close>) or one that \<open>init\<close> has replaced (\<open>Some k\<close>, its
  place in \<open>replaced\<close>); all of them read and write the module's one \<open>isListening\<close>.
\<close>

definition firing :: "nat option \<Rightarrow> speech_state \<Rightarrow> recognizer option" where
  "firing which s =
     (case which of
        None \<Rightarrow> recognition s
      | Some k \<Rightarrow> (if k < length (replaced s) then Some (replaced s ! k) else None))"

definition recognition_onresult ::
  "nat option \<Rightarrow> jsstring \<Rightarrow> speech_state \<Rightarrow> speech_state \<times> effect list" where
  "recognition_onresult which transcript s =
     (case firing which s of
        None \<Rightarrow> (s, [])
      | Some r \<Rightarrow>
          (case handlers r of
             None \<Rightarrow> (s, [])
           | Some (onResult, onError) \<Rightarrow> (s, invoke onResult transcript)))"

definition recognition_onerror ::
  "nat option \<Rightarrow> jsstring \<Rightarrow> speech_state \<Rightarrow> speech_state \<times> effect list" where
  "recognition_onerror which err s =
     (case firing which s of
        None \<Rightarrow> (s, [])
      | Some r \<Rightarrow>
          (case handlers r of
             None \<Rightarrow> (s, [])
           | Some (onResult, onError) \<Rightarrow> (s\<lparr>isListening := False\<rparr>, invoke onError err)))"

definition recognition_onend :: "nat option \<Rightarrow> speech_state \<Rightarrow> speech_state \<times> effect list" where
  "recognition_onend which s =
     (case firing which s of
        None \<Rightarrow> (s, [])
      | Some r \<Rightarrow>
          (case handlers r of
             None \<Rightarrow> (s, [])
           | Some h \<Rightarrow> (s\<lparr>isListening := False\<rparr>, [])))"

definition new_utterance :: "jsstring \<Rightarrow> callback option \<Rightarrow> utterance" where
  "new_utterance tx onEnd =
     \<lparr>utterance_text = tx, utterance_lang = ru_RU, rate = 1, pitch = 1, volume = 1,
      utterance_onend = onEnd\<rparr>"

definition speak :: "jsstring \<Rightarrow> callback option \<Rightarrow> speech_state \<Rightarrow> speech_state" where
  "speak tx onEnd s =
     (if \<not> isSpeechEnabled s then s
      else (case synthesis s of
              None \<Rightarrow> s
            | Some queue \<Rightarrow> s\<lparr>synthesis := Some ([] @ [new_utterance tx onEnd])\<rparr>))"

definition stopSpeaking :: "speech_state \<Rightarrow> speech_state" where
  "stopSpeaking s =
     (case synthesis s of
        None \<Rightarrow> s
      | Some queue \<Rightarrow> s\<lparr>synthesis := Some []\<rparr>)"

definition setSpeechEnabled :: "bool \<Rightarrow> speech_state \<Rightarrow> speech_state" where
  "setSpeechEnabled enabled s =
     (let s1 = s\<lparr>isSpeechEnabled := enabled\<rparr>
      in if \<not> enabled then stopSpeaking s1 else s1)"

definition getSpeechEnabled :: "speech_state \<Rightarrow> bool" where
  "getSpeechEnabled s = isSpeechEnabled s"

text \<open>
  The platform finishes the utterance at the head of the queue and fires its \<open>onend\<close>.
\<close>

definition utterance_ended :: "speech_state \<Rightarrow> speech_state \<times> effect list" where
  "utterance_ended s =
     (case synthesis s of
        Some (u # queue) \<Rightarrow> (s\<lparr>synthesis := Some queue\<rparr>, invoke (utterance_onend u) [])
      | _ \<Rightarrow> (s, []))"

text \<open>The utterances that are being spoken or wait to be.\<close>

definition utterances :: "speech_state \<Rightarrow> utterance list" where
  "utterances s = (case synthesis s of None \<Rightarrow> [] | Some queue \<Rightarrow> queue)"

text \<open>
  Everything that can happen to the adapter: a call of one of its exported functions, or
  an event of the platform. A run is a sequence of these from the state in which the
  module is loaded.
\<close>

datatype speech_op =
    Init
  | StartListening "callback option" "callback option" "jsstring option"
  | StopListening
  | Speak jsstring "callback option"
  | StopSpeaking
  | SetSpeechEnabled bool
  | OnResult "nat option" jsstring
  | OnError "nat option" jsstring
  | OnEnd "nat option"
  | UtteranceEnded

fun speech_step :: "speech_op \<Rightarrow> speech_state \<Rightarrow> speech_state \<times> effect list" where
  "speech_step Init s = (fst (init_speech s), [])"
| "speech_step (StartListening onResult onError start_throws) s =
     startListening onResult onError start_throws s"
| "speech_step StopListening s = stopListening s"
| "speech_step (Speak tx onEnd) s = (speak tx onEnd s, [])"
| "speech_step StopSpeaking s = (stopSpeaking s, [])"
| "speech_step (SetSpeechEnabled enabled) s = (setSpeechEnabled enabled s, [])"
| "speech_step (OnResult which transcript) s = recognition_onresult which transcript s"
| "speech_step (OnError which err) s = recognition_onerror which err s"
| "speech_step (OnEnd which) s = recognition_onend which s"
| "speech_step UtteranceEnded s = utterance_ended s"

fun speech_run :: "speech_op list \<Rightarrow> speech_state \<Rightarrow> speech_state" where
  "speech_run [] s = s"
| "speech_run (x # xs) s = speech_run xs (fst (speech_step x s))"

text \<open>
  The state when the module is loaded: \<open>recognition = null\<close>, \<open>isListening = false\<close>,
  \<open>isSpeechEnabled = true\<close>; the platform decides the rest.
\<close>

definition speech_loaded :: "bool \<Rightarrow> bool \<Rightarrow> speech_state" where
  "speech_loaded has_recognition has_synthesis =
     \<lparr>supported = has_recognition, recognition = None, replaced = [],
      synthesis = (if has_synthesis then Some [] else None),
      isListening = False, isSpeechEnabled = True\<rparr>"

section \<open>HTTP client (\<open>api.js\<close>)\<close>

datatype jsvalue =
    JUndefined
  | JNull
  | JBool bool
  | JNum real
  | JStr jsstring
  | JArr "jsvalue list"
  | JObj "(jsstring \<times> jsvalue) list"

text \<open>
  An object is the list of its properties in the order in which JavaScript lists them:
  the keys that are array indices (a decimal numeral without a leading zero, below
  \<open>2^32 - 1\<close>) in ascending order, then the other keys in the order of their creation.
  Reading a property that is missing gives \<open>undefined\<close>; writing one replaces its value
  where it stands or creates it; the spread \<open>{...b}\<close> writes the properties of \<open>b\<close> in
  their order.
\<close>

type_synonym jsobject = "(jsstring \<times> jsvalue) list"

definition get_prop :: "jsobject \<Rightarrow> jsstring \<Rightarrow> jsvalue" where
  "get_prop obj k = (case map_of obj k of None \<Rightarrow> JUndefined | Some v \<Rightarrow> v)"

definition is_digit :: "nat \<Rightarrow> bool" where
  "is_digit c = (48 \<le> c \<and> c \<le> 57)"

definition decimal_value :: "jsstring \<Rightarrow> nat" where
  "decimal_value k = foldl (\<lambda>n c. 10 * n + (c - 48)) 0 k"

definition array_index :: "jsstring \<Rightarrow> nat option" where
  "array_index k =
     (if k \<noteq> [] \<and> list_all is_digit k \<and> (length k = 1 \<or> take 1 k \<noteq> [48])
         \<and> decimal_value k < 2 ^ 32 - 1
      then Some (decimal_value k) else None)"

text \<open>The place of a new property: among the array indices by value, else at the end.\<close>

fun create_prop :: "jsstring \<Rightarrow> jsvalue \<Rightarrow> jsobject \<Rightarrow> jsobject" where
  "create_prop k v [] = [(k, v)]"
| "create_prop k v ((k', v') # ps) =
     (case array_index k of
        None \<Rightarrow> (k', v') # create_prop k v ps
      | Some n \<Rightarrow>
          (case array_index k' of
             None \<Rightarrow> (k, v) # (k', v') # ps
           | Some n' \<Rightarrow>
               if n' < n then (k', v') # create_prop k v ps else (k, v) # (k', v') # ps))"

definition set_prop :: "jsstring \<Rightarrow> jsvalue \<Rightarrow> jsobject \<Rightarrow> jsobject" where
  "set_prop k v obj =
     (if map_of obj k = None then create_prop k v obj
      else map (\<lambda>(k', v'). if k' = k then (k', v) else (k', v')) obj)"

fun spread :: "jsobject \<Rightarrow> jsobject \<Rightarrow> jsobject" where
  "spread [] obj = obj"
| "spread ((k, v) # ps) obj = spread ps (set_prop k v obj)"

text \<open>\<open>s.includes(p)\<close>: \<open>p\<close> occurs in \<open>s\<close> as a contiguous run of code units.\<close>

fun starts_with :: "jsstring \<Rightarrow> jsstring \<Rightarrow> bool" where
  "starts_with s [] = True"
| "starts_with [] (p # ps) = False"
| "starts_with (c # cs) (p # ps) = (c = p \<and> starts_with cs ps)"

fun str_includes :: "jsstring \<Rightarrow> jsstring \<Rightarrow> bool" where
  "str_includes [] p = (p = [])"
| "str_includes (c # cs) p = (starts_with (c # cs) p \<or> str_includes cs p)"

subsection \<open>The fixture \<open>MOCK_DATA\<close>\<close>

text \<open>
  The fields of \<open>MOCK_DATA\<close> that \<open>mockPost\<close> reads: \<open>user\<close>, \<open>token\<close>, \<open>goals\<close> and
  \<open>aiResponses\<close> (\<open>transactions\<close> and \<open>logs\<close> are read by \<open>mockGet\<close> only).
\<close>

record mock_data =
  mock_user :: jsobject
  mock_token :: jsvalue
  mock_goals :: "jsvalue list"
  mock_aiResponses :: jsobject

definition key_balance :: jsstring where
  "key_balance =
     [1073, 1072, 1083, 1072, 1085, 1089]"

definition key_goals_help :: jsstring where
  "key_goals_help =
     [1087, 1086, 1084, 1086, 1075, 1080, 32, 1089, 32, 1094, 1077, 1083, 1103, 1084, 1080]"

definition key_new_goal :: jsstring where
  "key_new_goal =
     [1089, 1086, 1079, 1076, 1072, 1081, 32, 1085, 1086, 1074, 1091, 1102, 32, 1094, 1077,
      1083, 1100]"

definition balance_text :: jsstring where
  "balance_text =
     [1042, 1072, 1096, 32, 1090, 1077, 1082, 1091, 1097, 1080, 1081, 32, 1073, 1072, 1083,
      1072, 1085, 1089, 32, 1089, 1086, 1089, 1090, 1072, 1074, 1083, 1103, 1077, 1090, 32,
      50, 53, 48, 44, 48, 48, 48, 32, 8376, 46, 32, 1059, 32, 1074, 1072, 1089, 32, 1077,
      1089, 1090, 1100, 32, 51, 32, 1072, 1082, 1090, 1080, 1074, 1085, 1099, 1077, 32, 1092,
      1080, 1085, 1072, 1085, 1089, 1086, 1074, 1099, 1077, 32, 1094, 1077, 1083, 1080, 46]"

definition goals_help_text :: jsstring where
  "goals_help_text =
     [1059, 32, 1074, 1072, 1089, 32, 51, 32, 1092, 1080, 1085, 1072, 1085, 1089, 1086, 1074,
      1099, 1077, 32, 1094, 1077, 1083, 1080, 46, 32, 1056, 1077, 1082, 1086, 1084, 1077,
      1085, 1076, 1091, 1102, 32, 1091, 1074, 1077, 1083, 1080, 1095, 1080, 1090, 1100, 32,
      1077, 1078, 1077, 1084, 1077, 1089, 1103, 1095, 1085, 1099, 1077, 32, 1074, 1079, 1085,
      1086, 1089, 1099, 32, 1085, 1072, 32, 69, 109, 101, 114, 103, 101, 110, 99, 121, 32, 70,
      117, 110, 100, 32, 1085, 1072, 32, 49, 48, 44, 48, 48, 48, 32, 8376, 46]"

definition goals_help_title :: jsstring where
  "goals_help_title =
     [1059, 1074, 1077, 1083, 1080, 1095, 1080, 1090, 1100, 32, 1074, 1079, 1085, 1086, 1089,
      32, 1085, 1072, 32, 69, 109, 101, 114, 103, 101, 110, 99, 121, 32, 70, 117, 110, 100]"

definition goals_help_description :: jsstring where
  "goals_help_description =
     [1059, 1074, 1077, 1083, 1080, 1095, 1080, 1090, 1100, 32, 1077, 1078, 1077, 1084, 1077,
      1089, 1103, 1095, 1085, 1099, 1081, 32, 1074, 1079, 1085, 1086, 1089, 32, 1089, 32,
      1090, 1077, 1082, 1091, 1097, 1077, 1075, 1086, 32, 1076, 1086, 32, 49, 48, 44, 48, 48,
      48, 32, 8376, 32, 1076, 1083, 1103, 32, 1076, 1086, 1089, 1090, 1080, 1078, 1077, 1085,
      1080, 1103, 32, 1094, 1077, 1083, 1080, 32, 1073, 1099, 1089, 1090, 1088, 1077, 1077, 46]"

definition new_goal_text :: jsstring where
  "new_goal_text =
     [1061, 1086, 1088, 1086, 1096, 1086, 33, 32, 1044, 1072, 1074, 1072, 1081, 1090, 1077,
      32, 1089, 1086, 1079, 1076, 1072, 1076, 1080, 1084, 32, 1085, 1086, 1074, 1091, 1102,
      32, 1092, 1080, 1085, 1072, 1085, 1089, 1086, 1074, 1091, 1102, 32, 1094, 1077, 1083,
      1100, 46, 32, 1050, 1072, 1082, 1091, 1102, 32, 1089, 1091, 1084, 1084, 1091, 32, 1074,
      1099, 32, 1093, 1086, 1090, 1080, 1090, 1077, 32, 1085, 1072, 1082, 1086, 1087, 1080,
      1090, 1100, 63]"

definition fixture_user :: jsobject where
  "fixture_user =
     [(ascii ''id'', JNum 1),
      (ascii ''name'', JStr (ascii ''John Doe'')),
      (ascii ''email'', JStr (ascii ''john@example.com'')),
      (ascii ''balance'', JNum 250000)]"

definition fixture_token :: jsvalue where
  "fixture_token = JStr (ascii ''mock_jwt_token_12345'')"

definition fixture_goal ::
  "real \<Rightarrow> string \<Rightarrow> real \<Rightarrow> real \<Rightarrow> string \<Rightarrow> string \<Rightarrow> jsvalue" where
  "fixture_goal i title target_amount current_amount deadline created_at =
     JObj [(ascii ''id'', JNum i),
           (ascii ''title'', JStr (ascii title)),
           (ascii ''target_amount'', JNum target_amount),
           (ascii ''current_amount'', JNum current_amount),
           (ascii ''deadline'', JStr (ascii deadline)),
           (ascii ''created_at'', JStr (ascii created_at))]"

definition fixture_goals :: "jsvalue list" where
  "fixture_goals =
     [fixture_goal 1 ''Emergency Fund'' 100000 75000 ''2025-12-31'' ''2025-01-15'',
      fixture_goal 2 ''New Car'' 500000 250000 ''2026-06-30'' ''2025-02-01'',
      fixture_goal 3 ''Vacation to Dubai'' 200000 50000 ''2025-09-01'' ''2025-03-10'']"

definition fixture_aiResponses :: jsobject where
  "fixture_aiResponses =
     [(key_balance,
       JObj [(ascii ''text'', JStr balance_text), (ascii ''suggested_action'', JNull)]),
      (key_goals_help,
       JObj [(ascii ''text'', JStr goals_help_text),
             (ascii ''suggested_action'',
              JObj [(ascii ''type'', JStr (ascii ''update_goal_contribution'')),
                    (ascii ''goal_id'', JNum 1),
                    (ascii ''amount'', JNum 10000),
                    (ascii ''title'', JStr goals_help_title),
                    (ascii ''description'', JStr goals_help_description)])]),
      (key_new_goal,
       JObj [(ascii ''text'', JStr new_goal_text), (ascii ''suggested_action'', JNull)])]"

definition MOCK_DATA_fixture :: mock_data where
  "MOCK_DATA_fixture =
     \<lparr>mock_user = fixture_user, mock_token = fixture_token, mock_goals = fixture_goals,
      mock_aiResponses = fixture_aiResponses\<rparr>"

subsection \<open>Requests\<close>

text \<open>
  A promise is described by how it settles: resolved with a value or rejected with an
  error after some time, or never. The simulated backend resolves from a timer of 500;
  when its timer callback throws, the promise is never settled.
\<close>

datatype error = HttpError nat | TransportError jsstring | InvalidJson

datatype promise = ResolvesAfter nat jsvalue | RejectsAfter nat error | NeverSettles

text \<open>
  What the platform gives to one request of the live backend: \<open>fetch\<close> fails after some
  time, or answers with \<open>response.ok\<close>, the status and the body as parsed by
  \<open>response.json()\<close> (\<open>None\<close> when the body is no JSON).
\<close>

datatype fetch_outcome =
    FetchFails nat jsstring
  | FetchResponds nat bool nat "jsvalue option"

text \<open>
  The platform, as far as a request depends on it: \<open>String.prototype.toLowerCase\<close>, the
  date part of \<open>new Date().toISOString()\<close> when the timer fires, and the outcome of
  \<open>fetch\<close>.
\<close>

record platform =
  toLowerCase :: "jsstring \<Rightarrow> jsstring"
  today :: jsstring
  fetched :: fetch_outcome

record api_state =
  BASE_URL :: jsstring
  USE_MOCK :: bool
  MOCK_DATA :: mock_data

definition api_loaded :: api_state where
  "api_loaded =
     \<lparr>BASE_URL = ascii ''http://127.0.0.1:5000'', USE_MOCK = False,
      MOCK_DATA = MOCK_DATA_fixture\<rparr>"

definition setBaseUrl :: "jsstring \<Rightarrow> api_state \<Rightarrow> api_state" where
  "setBaseUrl url st = st\<lparr>BASE_URL := url\<rparr>"

definition setMockMode :: "bool \<Rightarrow> api_state \<Rightarrow> api_state" where
  "setMockMode useMock st = st\<lparr>USE_MOCK := useMock\<rparr>"

definition isMockMode :: "api_state \<Rightarrow> bool" where
  "isMockMode st = USE_MOCK st"

text \<open>
  The loop of the \<open>/ai/message\<close> branch over \<open>Object.entries(MOCK_DATA.aiResponses)\<close>:
  the value of the first key whose lower-case form occurs in the message.
\<close>

fun first_match :: "(jsstring \<Rightarrow> jsstring) \<Rightarrow> jsstring \<Rightarrow> jsobject \<Rightarrow> jsvalue option" where
  "first_match lower msg [] = None"
| "first_match lower msg ((k, v) # entries) =
     (if str_includes msg (lower k) then Some v else first_match lower msg entries)"

text \<open>
  \<open>mockPost(path, body)\<close>: the promise it returns and \<open>MOCK_DATA\<close> after its timer has
  fired. The body is an object. In the \<open>/ai/message\<close> branch \<open>body.message.toLowerCase()\<close>
  throws inside the timer callback unless \<open>body.message\<close> is a string.
\<close>

definition mockPost :: "platform \<Rightarrow> jsstring \<Rightarrow> jsobject \<Rightarrow> mock_data \<Rightarrow> promise \<times> mock_data" where
  "mockPost pf path body md =
     (if str_includes path (ascii ''/auth/login'') then
        (ResolvesAfter 500
           (JObj [(ascii ''user_id'', get_prop (mock_user md) (ascii ''id'')),
                  (ascii ''access_token'', mock_token md),
                  (ascii ''user'', JObj (mock_user md))]),
         md)
      else if str_includes path (ascii ''/auth/register'') then
        (ResolvesAfter 500
           (JObj [(ascii ''user_id'', get_prop (mock_user md) (ascii ''id'')),
                  (ascii ''access_token'', mock_token md)]),
         md)
      else if str_includes path (ascii ''/ai/message'') then
        (case get_prop body (ascii ''message'') of
           JStr m \<Rightarrow>
             (ResolvesAfter 500
                (case first_match (toLowerCase pf) (toLowerCase pf m) (mock_aiResponses md) of
                   None \<Rightarrow> get_prop (mock_aiResponses md) key_balance
                 | Some response \<Rightarrow> response),
              md)
         | _ \<Rightarrow> (NeverSettles, md))
      else if str_includes path (ascii ''/ai/execute'') then
        (ResolvesAfter 500
           (JObj [(ascii ''success'', JBool True),
                  (ascii ''result'',
                   JObj [(ascii ''message'', JStr (ascii ''Action executed successfully''))])]),
         md)
      else if str_includes path (ascii ''/goals'') then
        (let newGoal =
               set_prop (ascii ''created_at'') (JStr (today pf))
                 (set_prop (ascii ''current_amount'') (JNum 0)
                    (spread body [(ascii ''id'', JNum (real (length (mock_goals md)) + 1))]))
         in (ResolvesAfter 500 (JObj newGoal),
             md\<lparr>mock_goals := mock_goals md @ [JObj newGoal]\<rparr>))
      else
        (ResolvesAfter 500 (JObj [(ascii ''message'', JStr (ascii ''Mock POST response''))]),
         md))"

text \<open>
  \<open>post(path, body)\<close>: the simulated backend in mock mode; otherwise the outcome of
  \<open>fetch\<close>, an answer that is not ok and a failure of \<open>fetch\<close> or of the JSON parser
  being rethrown to the caller.
\<close>

definition post :: "platform \<Rightarrow> jsstring \<Rightarrow> jsobject \<Rightarrow> api_state \<Rightarrow> promise \<times> api_state" where
  "post pf path body st =
     (if USE_MOCK st then
        (case mockPost pf path body (MOCK_DATA st) of
           (p, md) \<Rightarrow> (p, st\<lparr>MOCK_DATA := md\<rparr>))
      else
        (case fetched pf of
           FetchFails t e \<Rightarrow> (RejectsAfter t (TransportError e), st)
         | FetchResponds t okay status parsed \<Rightarrow>
             if \<not> okay then (RejectsAfter t (HttpError status), st)
             else (case parsed of
                     None \<Rightarrow> (RejectsAfter t InvalidJson, st)
                   | Some v \<Rightarrow> (ResolvesAfter t v, st))))"

definition login :: "platform \<Rightarrow> jsvalue \<Rightarrow> jsvalue \<Rightarrow> api_state \<Rightarrow> promise \<times> api_state" where
  "login pf email password st =
     post pf (ascii ''/auth/login'') [(ascii ''email'', email), (ascii ''password'', password)] st"

definition register :: "platform \<Rightarrow> jsobject \<Rightarrow> api_state \<Rightarrow> promise \<times> api_state" where
  "register pf userData st = post pf (ascii ''/auth/register'') userData st"

text \<open>
  The calls that change the client's state, and a run of them from the loaded module.
\<close>

datatype api_op =
    SetBaseUrl jsstring
  | SetMockMode bool
  | Post platform jsstring jsobject

fun api_step :: "api_op \<Rightarrow> api_state \<Rightarrow> api_state" where
  "api_step (SetBaseUrl url) st = setBaseUrl url st"
| "api_step (SetMockMode useMock) st = setMockMode useMock st"
| "api_step (Post pf path body) st = snd (post pf path body st)"

fun api_run :: "api_op list \<Rightarrow> api_state \<Rightarrow> api_state" where
  "api_run [] st = st"
| "api_run (x # xs) st = api_run xs (api_step x st)"

section \<open>Chat controller (\<open>ai_chat.js\<close>)\<close>

text \<open>
  \<open>String.prototype.trim\<close> removes the white space and line terminators of ECMAScript
  from both ends.
\<close>

definition is_whitespace :: "nat \<Rightarrow> bool" where
  "is_whitespace c =
     (c \<in> {9, 10, 11, 12, 13, 32, 160, 5760, 8232, 8233, 8239, 8287, 12288, 65279}
      \<or> (8192 \<le> c \<and> c \<le> 8202))"

definition trim :: "jsstring \<Rightarrow> jsstring" where
  "trim s = rev (dropWhile is_whitespace (rev (dropWhile is_whitespace s)))"

text \<open>
  \<open>addMessage\<close> writes the text of a message into the page with \<open>innerHTML\<close>, as it
  is, so markup in the text creates elements, and \<open>removeTypingIndicator\<close> looks an
  element up by its id in the whole document. The only ids ever looked up are those of
  typing indicators, \<open>'typing-'\<close> followed by the decimal numeral of a clock reading
  \<open>Date.now()\<close>. Of the elements that a text creates the model therefore keeps those
  with such an id: a node is one of them, with the clock reading of its id and the nodes
  inside it, in document order. What else markup can do (an event handler attribute that
  runs a script) is outside the model.
\<close>

datatype node = Node nat "node list"

text \<open>
  The children of the messages container, in document order: a message with its text,
  its type (\<open>'user'\<close> or \<open>'assistant'\<close>) and the nodes that its text has created and
  that are still there, or a typing indicator with the clock reading of its id. The
  message element itself, its two wrappers and the elements of an indicator carry no
  id; the time label of a message is left out.
\<close>

datatype msg_type = User | Assistant

datatype element = Message jsstring msg_type "node list" | TypingIndicator nat

text \<open>
  The reply of the assistant, \<open>{text, suggested_action?}\<close>, and a suggested action; a
  property that is missing is \<open>None\<close>.
\<close>

record action =
  action_type :: jsstring
  goal_id :: "real option"
  amount :: "real option"
  title :: "jsstring option"
  description :: "jsstring option"

record response =
  reply_text :: jsstring
  suggested_action :: "action option"

text \<open>How an awaited promise settles.\<close>

datatype 'a outcome = Resolved 'a | Rejected

text \<open>The calls of the two endpoints, in the order they are made.\<close>

datatype api_call =
    SendAIMessage "jsnum option" jsstring
  | ExecuteAIAction "jsnum option" action

datatype toast_type = ToastSuccess | ToastError

text \<open>
  What the controller reads and changes: the nodes of the page that precede the
  messages container in the document (the elements that contain the container are
  taken to have no such id), the messages container, what the platform's HTML
  parser makes of a message text (the nodes it creates), the value of the input
  box, the two classes it toggles on the microphone button, the calls made to the two
  endpoints, the toasts and confirm dialogs shown, the \<open>dashboard-refresh\<close> events
  dispatched, the voice adapter, what \<open>auth.getCurrentUserId()\<close> returns (\<open>None\<close> for
  \<open>null\<close>) and whether the path of the page includes \<open>dashboard.html\<close>.
\<close>

record chat_state =
  preceding :: "node list"
  messages :: "element list"
  parse_markup :: "jsstring \<Rightarrow> node list"
  messageInput :: jsstring
  mic_active :: bool
  mic_listening :: bool
  api_calls :: "api_call list"
  toasts :: "(jsstring \<times> toast_type) list"
  confirm_modals :: "(jsstring \<times> jsstring) list"
  refresh_events :: nat
  voice :: speech_state
  session_user_id :: "jsnum option"
  on_dashboard :: bool

definition msg_apology :: jsstring where
  "msg_apology =
     [1048, 1079, 1074, 1080, 1085, 1080, 1090, 1077, 44, 32, 1087, 1088, 1086, 1080, 1079,
      1086, 1096, 1083, 1072, 32, 1086, 1096, 1080, 1073, 1082, 1072, 46, 32, 1055, 1086,
      1087, 1088, 1086, 1073, 1091, 1081, 1090, 1077, 32, 1089, 1085, 1086, 1074, 1072, 46]"

definition default_modal_title :: jsstring where
  "default_modal_title =
     [1055, 1086, 1076, 1090, 1074, 1077, 1088, 1076, 1080, 1090, 1077, 32, 1076, 1077, 1081,
      1089, 1090, 1074, 1080, 1077]"

definition default_modal_message :: jsstring where
  "default_modal_message =
     [65, 73, 32, 1087, 1088, 1077, 1076, 1083, 1072, 1075, 1072, 1077, 1090, 32, 1074, 1099,
      1087, 1086, 1083, 1085, 1080, 1090, 1100, 32, 1076, 1077, 1081, 1089, 1090, 1074, 1080,
      1077, 46, 32, 1055, 1088, 1086, 1076, 1086, 1083, 1078, 1080, 1090, 1100, 63]"

definition toast_action_done :: jsstring where
  "toast_action_done =
     [1044, 1077, 1081, 1089, 1090, 1074, 1080, 1077, 32, 1074, 1099, 1087, 1086, 1083, 1085,
      1077, 1085, 1086, 32, 1091, 1089, 1087, 1077, 1096, 1085, 1086]"

definition msg_action_done :: jsstring where
  "msg_action_done =
     [1044, 1077, 1081, 1089, 1090, 1074, 1080, 1077, 32, 1074, 1099, 1087, 1086, 1083, 1085,
      1077, 1085, 1086, 32, 1091, 1089, 1087, 1077, 1096, 1085, 1086, 33]"

definition toast_action_failed :: jsstring where
  "toast_action_failed =
     [1053, 1077, 32, 1091, 1076, 1072, 1083, 1086, 1089, 1100, 32, 1074, 1099, 1087, 1086,
      1083, 1085, 1080, 1090, 1100, 32, 1076, 1077, 1081, 1089, 1090, 1074, 1080, 1077]"

definition msg_action_failed :: jsstring where
  "msg_action_failed =
     [1048, 1079, 1074, 1080, 1085, 1080, 1090, 1077, 44, 32, 1085, 1077, 32, 1091, 1076,
      1072, 1083, 1086, 1089, 1100, 32, 1074, 1099, 1087, 1086, 1083, 1085, 1080, 1090, 1100,
      32, 1076, 1077, 1081, 1089, 1090, 1074, 1080, 1077, 46]"

definition toast_action_error :: jsstring where
  "toast_action_error =
     [1054, 1096, 1080, 1073, 1082, 1072, 32, 1074, 1099, 1087, 1086, 1083, 1085, 1077, 1085,
      1080, 1103, 32, 1076, 1077, 1081, 1089, 1090, 1074, 1080, 1103]"

definition msg_action_error :: jsstring where
  "msg_action_error =
     [1055, 1088, 1086, 1080, 1079, 1086, 1096, 1083, 1072, 32, 1086, 1096, 1080, 1073, 1082,
      1072, 32, 1087, 1088, 1080, 32, 1074, 1099, 1087, 1086, 1083, 1085, 1077, 1085, 1080,
      1080, 32, 1076, 1077, 1081, 1089, 1090, 1074, 1080, 1103, 46]"

definition getCurrentUserId :: "chat_state \<Rightarrow> jsnum option" where
  "getCurrentUserId s = session_user_id s"

definition addMessage :: "jsstring \<Rightarrow> msg_type \<Rightarrow> chat_state \<Rightarrow> chat_state" where
  "addMessage tx ty s = s\<lparr>messages := messages s @ [Message tx ty (parse_markup s tx)]\<rparr>"

text \<open>\<open>showTypingIndicator\<close> at the clock reading \<open>now\<close>; it returns the id.\<close>

definition showTypingIndicator :: "nat \<Rightarrow> chat_state \<Rightarrow> nat \<times> chat_state" where
  "showTypingIndicator now s = (now, s\<lparr>messages := messages s @ [TypingIndicator now]\<rparr>)"

text \<open>
  \<open>document.getElementById(id)\<close> followed by \<open>remove()\<close>: the first element with the id
  in document order is taken out, with all that is inside it. The result is \<open>None\<close> when
  no element has the id.
\<close>

fun remove_node :: "nat \<Rightarrow> node list \<Rightarrow> node list option" where
  "remove_node i [] = None"
| "remove_node i (Node j inner # ns) =
     (if i = j then Some ns
      else (case remove_node i inner of
              Some inner' \<Rightarrow> Some (Node j inner' # ns)
            | None \<Rightarrow> map_option ((#) (Node j inner)) (remove_node i ns)))"

fun remove_element :: "nat \<Rightarrow> element list \<Rightarrow> element list option" where
  "remove_element i [] = None"
| "remove_element i (Message tx ty ns # es) =
     (case remove_node i ns of
        Some ns' \<Rightarrow> Some (Message tx ty ns' # es)
      | None \<Rightarrow> map_option ((#) (Message tx ty ns)) (remove_element i es))"
| "remove_element i (TypingIndicator j # es) =
     (if i = j then Some es
      else map_option ((#) (TypingIndicator j)) (remove_element i es))"



text \<open>
  \<open>removeTypingIndicator\<close>: the element is looked for in the part of the page before
  the container, then in the container. When neither has it, an element with the id
  further down the document (in a dialog or a toast, which are appended to the body)
  would be the one removed; the model does not hold these.
\<close>

definition removeTypingIndicator :: "nat \<Rightarrow> chat_state \<Rightarrow> chat_state" where
  "removeTypingIndicator i s =
     (case remove_node i (preceding s) of
        Some ns \<Rightarrow> s\<lparr>preceding := ns\<rparr>
      | None \<Rightarrow>
          (case remove_element i (messages s) of
             Some es \<Rightarrow> s\<lparr>messages := es\<rparr>
           | None \<Rightarrow> s))"

text \<open>\<open>v || d\<close> for a string property: a missing or empty one gives the default.\<close>

definition or_default :: "jsstring option \<Rightarrow> jsstring \<Rightarrow> jsstring" where
  "or_default v d = (case v of None \<Rightarrow> d | Some x \<Rightarrow> if x = [] then d else x)"

text \<open>
  An asynchronous function runs until its next \<open>await\<close> and is resumed when the awaited
  promise settles. Each function below is one such stretch of \<open>handleSendMessage\<close> or of
  \<open>handleSuggestedAction\<close> (which the former awaits); it returns the new state and what
  the turn waits for next, \<open>None\<close> when the turn is over.
\<close>

datatype continuation =
    AwaitingResponse nat
  | AwaitingConfirmation action
  | Executing action

text \<open>\<open>handleSendMessage\<close> up to \<open>await api.sendAIMessage(userId, message)\<close>.\<close>

definition handleSendMessage :: "nat \<Rightarrow> chat_state \<Rightarrow> chat_state \<times> continuation option" where
  "handleSendMessage now s =
     (let message = trim (messageInput s) in
      if message = [] then (s, None)
      else
        let s1 = s\<lparr>messageInput := []\<rparr>;
            s2 = addMessage message User s1;
            (typingId, s3) = showTypingIndicator now s2;
            userId = getCurrentUserId s3;
            s4 = s3\<lparr>api_calls := api_calls s3 @ [SendAIMessage userId message]\<rparr>
        in (s4, Some (AwaitingResponse typingId)))"

text \<open>\<open>handleSuggestedAction\<close> up to \<open>await ui.showConfirmModal(...)\<close>.\<close>

definition handleSuggestedAction :: "action \<Rightarrow> chat_state \<Rightarrow> chat_state \<times> continuation option" where
  "handleSuggestedAction a s =
     (s\<lparr>confirm_modals := confirm_modals s
          @ [(or_default (title a) default_modal_title,
              or_default (description a) default_modal_message)]\<rparr>,
      Some (AwaitingConfirmation a))"

text \<open>
  \<open>handleSendMessage\<close> from the settling of the reply: the \<open>try\<close> block after the
  \<open>await\<close> when it resolved, the \<open>catch\<close> block when it was rejected.
\<close>

definition handleSendMessage_settled ::
  "nat \<Rightarrow> response outcome \<Rightarrow> chat_state \<Rightarrow> chat_state \<times> continuation option" where
  "handleSendMessage_settled typingId reply s =
     (case reply of
        Resolved r \<Rightarrow>
          let s1 = removeTypingIndicator typingId s;
              s2 = addMessage (reply_text r) Assistant s1;
              s3 = (if getSpeechEnabled (voice s2)
                    then s2\<lparr>voice := speak (reply_text r) None (voice s2)\<rparr>
                    else s2)
          in (case suggested_action r of
                None \<Rightarrow> (s3, None)
              | Some a \<Rightarrow> handleSuggestedAction a s3)
      | Rejected \<Rightarrow>
          (addMessage msg_apology Assistant (removeTypingIndicator typingId s), None))"

text \<open>
  \<open>handleSuggestedAction\<close> from the user's choice up to
  \<open>await api.executeAIAction(userId, action)\<close>.
\<close>

definition handleSuggestedAction_chosen ::
  "action \<Rightarrow> bool \<Rightarrow> chat_state \<Rightarrow> chat_state \<times> continuation option" where
  "handleSuggestedAction_chosen a confirmed s =
     (if confirmed then
        (s\<lparr>api_calls := api_calls s @ [ExecuteAIAction (getCurrentUserId s) a]\<rparr>,
         Some (Executing a))
      else (s, None))"

definition showToast :: "jsstring \<Rightarrow> toast_type \<Rightarrow> chat_state \<Rightarrow> chat_state" where
  "showToast m ty s = s\<lparr>toasts := toasts s @ [(m, ty)]\<rparr>"

text \<open>
  \<open>handleSuggestedAction\<close> from the settling of the execution; the outcome carries
  \<open>result.success\<close>.
\<close>

definition handleSuggestedAction_executed ::
  "bool outcome \<Rightarrow> chat_state \<Rightarrow> chat_state \<times> continuation option" where
  "handleSuggestedAction_executed result s =
     (case result of
        Resolved success \<Rightarrow>
          if success then
            let s1 = showToast toast_action_done ToastSuccess s;
                s2 = addMessage msg_action_done Assistant s1
            in (if on_dashboard s2 then s2\<lparr>refresh_events := refresh_events s2 + 1\<rparr> else s2,
                None)
          else
            (addMessage msg_action_failed Assistant (showToast toast_action_failed ToastError s),
             None)
      | Rejected \<Rightarrow>
          (addMessage msg_action_error Assistant (showToast toast_action_error ToastError s),
           None))"

text \<open>
  The callback that \<open>handleMicClick\<close> gives to \<open>speech.startListening\<close> for a
  transcript: it puts the transcript into the input box, clears the two classes of the
  microphone button and calls \<open>handleSendMessage\<close>.
\<close>

definition micOnResult :: "jsstring \<Rightarrow> nat \<Rightarrow> chat_state \<Rightarrow> chat_state \<times> continuation option" where
  "micOnResult transcript now s =
     handleSendMessage now
       (s\<lparr>messageInput := transcript, mic_active := False, mic_listening := False\<rparr>)"

subsection \<open>The controller and its turns in flight\<close>

text \<open>
  The controller is the page state and the turns in flight, each with what it waits
  for; it awaits input when no turn is in flight. An event is something the user or
  the platform does: the user edits the input box, submits it (the send button or the
  Enter key, at a clock reading), a transcript arrives, the voice toggle changes, or
  the promise that the turn at a position of the list waits for settles. An event that
  does not fit what that turn waits for does not happen: the state stays as it is.
\<close>

record controller =
  page :: chat_state
  in_flight :: "continuation list"

datatype event =
    Typed jsstring
  | Send nat
  | Transcript jsstring nat
  | VoiceToggle bool
  | ReplySettled nat "response outcome"
  | ModalSettled nat bool
  | ExecuteSettled nat "bool outcome"

definition begin_turn :: "chat_state \<times> continuation option \<Rightarrow> controller \<Rightarrow> controller" where
  "begin_turn r c =
     \<lparr>page = fst r,
      in_flight = in_flight c @ (case snd r of None \<Rightarrow> [] | Some k \<Rightarrow> [k])\<rparr>"

definition resume_turn :: "nat \<Rightarrow> chat_state \<times> continuation option \<Rightarrow> controller \<Rightarrow> controller" where
  "resume_turn i r c =
     \<lparr>page = fst r,
      in_flight =
        (case snd r of
           None \<Rightarrow> take i (in_flight c) @ drop (Suc i) (in_flight c)
         | Some k \<Rightarrow> (in_flight c)[i := k])\<rparr>"

definition waits_for :: "controller \<Rightarrow> nat \<Rightarrow> continuation option" where
  "waits_for c i = (if i < length (in_flight c) then Some (in_flight c ! i) else None)"

fun step :: "event \<Rightarrow> controller \<Rightarrow> controller" where
  "step (Typed v) c = c\<lparr>page := (page c)\<lparr>messageInput := v\<rparr>\<rparr>"
| "step (Send now) c = begin_turn (handleSendMessage now (page c)) c"
| "step (Transcript transcript now) c = begin_turn (micOnResult transcript now (page c)) c"
| "step (VoiceToggle enabled) c =
     c\<lparr>page := (page c)\<lparr>voice := setSpeechEnabled enabled (voice (page c))\<rparr>\<rparr>"
| "step (ReplySettled i reply) c =
     (case waits_for c i of
        Some (AwaitingResponse typingId) \<Rightarrow>
          resume_turn i (handleSendMessage_settled typingId reply (page c)) c
      | _ \<Rightarrow> c)"
| "step (ModalSettled i confirmed) c =
     (case waits_for c i of
        Some (AwaitingConfirmation a) \<Rightarrow>
          resume_turn i (handleSuggestedAction_chosen a confirmed (page c)) c
      | _ \<Rightarrow> c)"
| "step (ExecuteSettled i result) c =
     (case waits_for c i of
        Some (Executing a) \<Rightarrow> resume_turn i (handleSuggestedAction_executed result (page c)) c
      | _ \<Rightarrow> c)"

fun run :: "event list \<Rightarrow> controller \<Rightarrow> controller" where
  "run [] c = c"
| "run (e # es) c = run es (step e c)"

text \<open>The ids of the typing indicators among the elements, in order.\<close>

fun indicator_ids :: "element list \<Rightarrow> nat list" where
  "indicator_ids [] = []"
| "indicator_ids (Message tx ty ns # es) = indicator_ids es"
| "indicator_ids (TypingIndicator i # es) = i # indicator_ids es"


text \<open>A text whose markup creates no element with the id of a typing indicator.\<close>

definition plain :: "controller \<Rightarrow> jsstring \<Rightarrow> bool" where
  "plain c tx = (parse_markup (page c) tx = [])"





text \<open>
  The controller after \<open>init\<close>, on a platform with speech recognition and synthesis and
  the HTML parser \<open>html\<close>, on a page with no element of interest before the container:
  the welcome message is shown, \<open>speech.init()\<close> has run, no turn is in flight.
\<close>

definition chat_opened :: "(jsstring \<Rightarrow> node list) \<Rightarrow> jsstring \<Rightarrow> jsnum option \<Rightarrow> controller" where
  "chat_opened html welcome uid =
     \<lparr>page =
        \<lparr>preceding = [], messages = [Message welcome Assistant (html welcome)],
         parse_markup = html, messageInput = [], mic_active = False,
         mic_listening = False, api_calls = [], toasts = [], confirm_modals = [],
         refresh_events = 0, voice = fst (init_speech (speech_loaded True True)),
         session_user_id = uid, on_dashboard = False\<rparr>,
      in_flight = []\<rparr>"

text \<open>
  For the examples: the text \<open><p id=typing-5>x</p>\<close>, a parser that makes of it the
  one element with the id \<open>typing-5\<close> and makes no node of the other texts used
  (none of them has markup), and the controller opened for the user with id 1, greeted
  with \<open>Hello\<close>, who has typed \<open>hi\<close>, or that text, into the input box.
\<close>

definition sample_markup :: jsstring where
  "sample_markup = ascii ''<p id=typing-5>x</p>''"

definition sample_html :: "jsstring \<Rightarrow> node list" where
  "sample_html tx = (if tx = sample_markup then [Node 5 []] else [])"


definition markup_chat :: controller where
  "markup_chat =
     step (Typed sample_markup) (chat_opened sample_html (ascii ''Hello'') (Some (Finite 1)))"

definition sample_action :: action where
  "sample_action =
     \<lparr>action_type = ascii ''update_goal_contribution'', goal_id = Some 1,
      amount = Some 10000, title = None, description = None\<rparr>"

definition sample_response :: response where
  "sample_response = \<lparr>reply_text = ascii ''ok'', suggested_action = Some sample_action\<rparr>"

section \<open>Properties of the progress percentage\<close>

lemma Math_round_mono: "x \<le> y \<Longrightarrow> Math_round x \<le> Math_round y"
  unfolding Math_round_def by (simp add: floor_mono)

lemma Math_round_nonneg: "0 \<le> x \<Longrightarrow> 0 \<le> Math_round x"
  unfolding Math_round_def by simp

lemma calculatePercentage_mono:
  assumes "mono fl" and "0 < T" and "c \<le> c'"
  shows "calculatePercentage fl c T \<le> calculatePercentage fl c' T"
proof -
  from \<open>0 < T\<close> \<open>c \<le> c'\<close> have "c / T \<le> c' / T"
    by (simp add: divide_right_mono)
  with \<open>mono fl\<close> have "fl (c / T) * 100 \<le> fl (c' / T) * 100"
    by (simp add: monoD)
  with \<open>mono fl\<close> have "fl (fl (c / T) * 100) \<le> fl (fl (c' / T) * 100)"
    by (rule monoD)
  then have "Math_round (fl (fl (c / T) * 100)) \<le> Math_round (fl (fl (c' / T) * 100))"
    by (rule Math_round_mono)
  with \<open>0 < T\<close> show ?thesis
    unfolding calculatePercentage_def by (simp add: min_le_iff_disj)
qed

lemma calculatePercentage_le_100: "calculatePercentage fl c T \<le> 100"
  unfolding calculatePercentage_def by simp

lemma calculatePercentage_nonneg:
  assumes "mono fl" and "fl 0 = 0" and "0 < T" and "0 \<le> c"
  shows "0 \<le> calculatePercentage fl c T"
proof -
  from \<open>0 < T\<close> \<open>0 \<le> c\<close> have "0 \<le> c / T" by simp
  with \<open>mono fl\<close> have "fl 0 \<le> fl (c / T)" by (rule monoD)
  with \<open>fl 0 = 0\<close> have "0 \<le> fl (c / T) * 100" by simp
  with \<open>mono fl\<close> have "fl 0 \<le> fl (fl (c / T) * 100)" by (rule monoD)
  with \<open>fl 0 = 0\<close> have "0 \<le> Math_round (fl (fl (c / T) * 100))"
    by (simp add: Math_round_nonneg)
  then show ?thesis
    unfolding calculatePercentage_def by simp
qed

lemma calculatePercentage_zero:
  assumes "fl 0 = 0" and "0 < T"
  shows "calculatePercentage fl 0 T = 0"
  using assms unfolding calculatePercentage_def Math_round_def by simp

lemma calculatePercentage_full:
  assumes "fl 1 = 1" and "fl 100 = 100" and "0 < T"
  shows "calculatePercentage fl T T = 100"
  using assms unfolding calculatePercentage_def Math_round_def by simp

lemma calculatePercentage_double:
  assumes "mono fl" and "fl 1 = 1" and "fl 100 = 100" and "0 < T"
  shows "calculatePercentage fl (2 * T) T = 100"
proof -
  from \<open>0 < T\<close> have "2 * T / T = 2" by simp
  from \<open>mono fl\<close> have "fl 1 \<le> fl 2" by (rule monoD) simp
  with \<open>fl 1 = 1\<close> have "100 \<le> fl 2 * 100" by simp
  with \<open>mono fl\<close> have "fl 100 \<le> fl (fl 2 * 100)" by (rule monoD)
  with \<open>fl 100 = 100\<close> have "Math_round 100 \<le> Math_round (fl (fl 2 * 100))"
    by (simp add: Math_round_mono)
  moreover have "Math_round 100 = 100"
    unfolding Math_round_def by simp
  ultimately have "100 \<le> Math_round (fl (fl 2 * 100))" by simp
  with \<open>0 < T\<close> \<open>2 * T / T = 2\<close> show ?thesis
    unfolding calculatePercentage_def by simp
qed

lemma goalProgress_eq:
  "T \<noteq> 0 \<Longrightarrow> goalProgress fl c T = Finite (calculatePercentage fl c T)"
  unfolding goalProgress_def calculatePercentage_def by simp

text \<open>
  Claim C4, as stated: for every current amount \<open>c\<close> and every target \<open>T > 0\<close> the
  percentage is non-decreasing in \<open>c\<close> and lies in \<open>[0, 100]\<close>. The code clamps from
  above only: a negative current amount gives a negative percentage. At \<open>c = -50\<close>,
  \<open>T = 100\<close> every intermediate value (\<open>-0.5\<close>, \<open>-50\<close>) is a double, so the rounding
  is the identity there.
\<close>

theorem calculatePercentage_negative_counterexample:
  "(0::real) < 100 \<and> calculatePercentage (\<lambda>x. x) (- 50) 100 = - 50
     \<and> \<not> (0 \<le> calculatePercentage (\<lambda>x. x) (- 50) 100)"
  by (simp add: calculatePercentage_def Math_round_def)

text \<open>
  Claim C4, amended: for a rounding \<open>fl\<close> that is monotone and exact at 0, 1 and 100 (as
  rounding to the nearest double is) and every target \<open>T > 0\<close>, the percentage is
  non-decreasing in the current amount and never above 100; it is at least 0 for every
  current amount \<open>c \<ge> 0\<close>; it is 0 at \<open>c = 0\<close> and 100 at \<open>c = T\<close> and \<open>c = 2T\<close>. The
  progress of a goal card is the same number.
\<close>

theorem calculatePercentage_monotone_clamped:
  assumes "mono fl" and "fl 0 = 0" and "fl 1 = 1" and "fl 100 = 100" and "0 < T"
  shows "(c \<le> c' \<longrightarrow> calculatePercentage fl c T \<le> calculatePercentage fl c' T)
    \<and> calculatePercentage fl c T \<le> 100
    \<and> (0 \<le> c \<longrightarrow> 0 \<le> calculatePercentage fl c T)
    \<and> calculatePercentage fl 0 T = 0
    \<and> calculatePercentage fl T T = 100
    \<and> calculatePercentage fl (2 * T) T = 100
    \<and> goalProgress fl c T = Finite (calculatePercentage fl c T)"
proof (intro conjI impI)
  assume "c \<le> c'"
  with assms show "calculatePercentage fl c T \<le> calculatePercentage fl c' T"
    by (simp add: calculatePercentage_mono)
next
  show "calculatePercentage fl c T \<le> 100"
    by (rule calculatePercentage_le_100)
next
  assume "0 \<le> c"
  with assms show "0 \<le> calculatePercentage fl c T"
    by (simp add: calculatePercentage_nonneg)
next
  from assms show "calculatePercentage fl 0 T = 0"
    by (simp add: calculatePercentage_zero)
next
  from assms show "calculatePercentage fl T T = 100"
    by (simp add: calculatePercentage_full)
next
  from assms show "calculatePercentage fl (2 * T) T = 100"
    by (simp add: calculatePercentage_double)
next
  from \<open>0 < T\<close> show "goalProgress fl c T = Finite (calculatePercentage fl c T)"
    by (simp add: goalProgress_eq)
qed

theorem calculatePercentage_monotone_clamped_witness:
  "calculatePercentage (\<lambda>x. x) 25 200 \<le> calculatePercentage (\<lambda>x. x) 150 200
    \<and> calculatePercentage (\<lambda>x. x) 25 200 \<le> 100
    \<and> 0 \<le> calculatePercentage (\<lambda>x. x) 25 200
    \<and> calculatePercentage (\<lambda>x. x) 0 200 = 0
    \<and> calculatePercentage (\<lambda>x. x) 200 200 = 100
    \<and> calculatePercentage (\<lambda>x. x) (2 * 200) 200 = 100
    \<and> goalProgress (\<lambda>x. x) 25 200 = Finite (calculatePercentage (\<lambda>x. x) 25 200)"
proof -
  have m: "mono (\<lambda>x::real. x)" by (simp add: mono_def)
  have h: "(0::real) < 200" by simp
  have le: "(25::real) \<le> 150" and nn: "(0::real) \<le> 25" by simp_all
  from calculatePercentage_monotone_clamped [of "\<lambda>x. x" 200 25 150, OF m refl refl refl h] le nn
  show ?thesis by blast
qed

text \<open>
  Claim C10: with a zero total the percentage is 0, whatever the current amount; the
  guard \<open>total === 0\<close> returns before the division.
\<close>

theorem calculatePercentage_zero_total:
  "calculatePercentage fl c 0 = 0"
  by (simp add: calculatePercentage_def)

section \<open>Properties of the numeric validator\<close>

lemma js_lt_iff:
  "a \<noteq> NaN \<Longrightarrow> js_lt a b \<longleftrightarrow> b \<noteq> NaN \<and> \<not> js_le b a"
  by (cases a; cases b) auto

lemma js_gt_iff:
  "a \<noteq> NaN \<Longrightarrow> js_gt a b \<longleftrightarrow> b \<noteq> NaN \<and> \<not> js_le a b"
  unfolding js_gt_def by (cases a; cases b) auto

lemma msg_not_a_number_nonempty: "msg_not_a_number \<noteq> []"
  by (simp add: msg_not_a_number_def)

lemma msg_minimum_nonempty: "msg_minimum \<noteq> []"
  by (simp add: msg_minimum_def)

lemma msg_maximum_nonempty: "msg_maximum \<noteq> []"
  by (simp add: msg_maximum_def)

text \<open>
  Claim C2, as stated: for every value and bounds the result is ok exactly when the value
  parses as a number and \<open>min \<le> value \<le> max\<close>. A bound can be \<open>NaN\<close>: then
  \<open>num < min\<close> is false, as every comparison with \<open>NaN\<close> is, and the value passes
  although \<open>min \<le> value\<close> is false too. With the bound \<open>NaN\<close> the value 5 is ok.
\<close>

theorem validateNumber_nan_bound_counterexample:
  "ok (validateNumber (\<lambda>v. Finite v) (\<lambda>n. ascii ''NaN'') 5 (Some NaN) None)
   \<and> \<not> js_le NaN (Finite 5)"
  by (simp add: validateNumber_def isNaN_def)

text \<open>
  Claim C2, amended: for every value and bounds, each bound optional, the result is ok
  exactly when the value parses as a number (\<open>parseFloat\<close> does not give \<open>NaN\<close>) and
  every bound that is given is \<open>NaN\<close> or holds (\<open>min \<le> value\<close>, \<open>value \<le> max\<close>); a
  result that is not ok carries a message that is not empty.
\<close>

theorem validateNumber_ok_iff:
  "(ok (validateNumber parseFloat toString v mn mx) \<longleftrightarrow>
      parseFloat v \<noteq> NaN
      \<and> (case mn of None \<Rightarrow> True | Some m \<Rightarrow> m = NaN \<or> js_le m (parseFloat v))
      \<and> (case mx of None \<Rightarrow> True | Some m \<Rightarrow> m = NaN \<or> js_le (parseFloat v) m))
   \<and> (\<not> ok (validateNumber parseFloat toString v mn mx) \<longrightarrow>
      message (validateNumber parseFloat toString v mn mx) \<noteq> [])"
proof (cases "parseFloat v = NaN")
  case True
  then show ?thesis
    by (simp add: validateNumber_def isNaN_def msg_not_a_number_nonempty)
next
  case False
  then show ?thesis
    by (auto simp: validateNumber_def isNaN_def Let_def js_lt_iff js_gt_iff
        msg_minimum_nonempty msg_maximum_nonempty split: option.splits)
qed

text \<open>
  The dashboard's rule for a target amount, \<open>validateNumber(val, 1000)\<close>, at a value that
  parses to 1500 and at one that parses to 999.
\<close>

theorem validateNumber_ok_iff_witness:
  "ok (validateNumber (\<lambda>v. Finite v) (\<lambda>n. ascii ''1000'') 1500 (Some (Finite 1000)) None)
    \<and> \<not> ok (validateNumber (\<lambda>v. Finite v) (\<lambda>n. ascii ''1000'') 999
              (Some (Finite 1000)) None)
    \<and> message (validateNumber (\<lambda>v. Finite v) (\<lambda>n. ascii ''1000'') 999
              (Some (Finite 1000)) None) \<noteq> []"
proof -
  from validateNumber_ok_iff [of "\<lambda>v. Finite v" "\<lambda>n. ascii ''1000''" 1500 "Some (Finite 1000)" None]
    validateNumber_ok_iff [of "\<lambda>v. Finite v" "\<lambda>n. ascii ''1000''" 999 "Some (Finite 1000)" None]
  show ?thesis by simp
qed

section \<open>Properties of the voice adapter\<close>

lemma listening_has_recognition_step:
  assumes "isListening s \<longrightarrow> recognition s \<noteq> None"
  shows "isListening (fst (speech_step x s)) \<longrightarrow> recognition (fst (speech_step x s)) \<noteq> None"
proof (cases x)
  case (StartListening onResult onError start_throws)
  with assms show ?thesis
    by (auto simp: startListening_def startListening_with_def init_speech_def Let_def
        split: option.splits if_splits)
next
  case Init
  with assms show ?thesis by (auto simp: init_speech_def)
next
  case StopListening
  with assms show ?thesis by (auto simp: stopListening_def)
next
  case (Speak tx onEnd)
  with assms show ?thesis by (auto simp: speak_def split: option.splits)
next
  case StopSpeaking
  with assms show ?thesis by (auto simp: stopSpeaking_def split: option.splits)
next
  case (SetSpeechEnabled enabled)
  with assms show ?thesis
    by (auto simp: setSpeechEnabled_def stopSpeaking_def Let_def split: option.splits)
next
  case (OnResult which transcript)
  with assms show ?thesis by (auto simp: recognition_onresult_def split: option.splits)
next
  case (OnError which err)
  with assms show ?thesis by (auto simp: recognition_onerror_def split: option.splits)
next
  case (OnEnd which)
  with assms show ?thesis by (auto simp: recognition_onend_def split: option.splits)
next
  case UtteranceEnded
  with assms show ?thesis by (auto simp: utterance_ended_def split: option.splits list.splits)
qed

lemma listening_has_recognition_run:
  "isListening s \<longrightarrow> recognition s \<noteq> None \<Longrightarrow>
   isListening (speech_run ops s) \<longrightarrow> recognition (speech_run ops s) \<noteq> None"
proof (induction ops arbitrary: s)
  case Nil
  then show ?case by simp
next
  case (Cons x xs)
  from Cons.prems have "isListening (fst (speech_step x s)) \<longrightarrow>
      recognition (fst (speech_step x s)) \<noteq> None"
    by (rule listening_has_recognition_step)
  then show ?case using Cons.IH by simp
qed

lemma listening_has_recognition:
  "isListening (speech_run ops (speech_loaded r y)) \<Longrightarrow>
   recognition (speech_run ops (speech_loaded r y)) \<noteq> None"
  using listening_has_recognition_run [of "speech_loaded r y" ops]
  by (simp add: speech_loaded_def)

text \<open>
  Claim C3, as stated: a call of \<open>startListening\<close> while the adapter is listening invokes
  \<open>onError\<close> at once. The code returns at \<open>if (isListening) { return; }\<close> without
  invoking anything: after one successful \<open>startListening\<close> a second call, with the
  error callback 4, produces no effect at all.
\<close>

theorem startListening_while_listening_counterexample:
  "isListening (speech_run [StartListening (Some 1) (Some 2) None] (speech_loaded True True))
   \<and> (\<forall>msg. Invoke 4 msg \<notin> set (snd (startListening (Some 3) (Some 4) None
        (speech_run [StartListening (Some 1) (Some 2) None] (speech_loaded True True)))))
   \<and> snd (startListening (Some 3) (Some 4) None
        (speech_run [StartListening (Some 1) (Some 2) None] (speech_loaded True True))) = []"
  by (simp add: startListening_def startListening_with_def init_speech_def isSupported_def
      speech_loaded_def Let_def)

text \<open>
  Claim C3, amended: in every state the adapter can reach from the loaded module, a call
  of \<open>startListening\<close> while it is listening is a silent no-op: it invokes neither
  callback, starts no session and leaves the state as it is.
\<close>

theorem startListening_while_listening:
  assumes "isListening (speech_run ops (speech_loaded r y))"
  shows "startListening onResult onError start_throws (speech_run ops (speech_loaded r y))
           = (speech_run ops (speech_loaded r y), [])"
proof -
  from assms have "recognition (speech_run ops (speech_loaded r y)) \<noteq> None"
    by (rule listening_has_recognition)
  with assms show ?thesis
    by (auto simp: startListening_def startListening_with_def)
qed

theorem startListening_while_listening_witness:
  "isListening (speech_run [Init, StartListening (Some 1) (Some 2) None] (speech_loaded True False))
   \<and> startListening (Some 3) (Some 4) (Some (ascii ''InvalidStateError''))
        (speech_run [Init, StartListening (Some 1) (Some 2) None] (speech_loaded True False))
      = (speech_run [Init, StartListening (Some 1) (Some 2) None] (speech_loaded True False), [])"
proof -
  have l: "isListening
      (speech_run [Init, StartListening (Some 1) (Some 2) None] (speech_loaded True False))"
    by (simp add: startListening_def startListening_with_def init_speech_def isSupported_def
        speech_loaded_def Let_def)
  from l startListening_while_listening [OF l] show ?thesis by simp
qed

lemma silent_step:
  assumes "\<not> isSpeechEnabled s" and "utterances s = []" and "x \<noteq> SetSpeechEnabled True"
  shows "\<not> isSpeechEnabled (fst (speech_step x s)) \<and> utterances (fst (speech_step x s)) = []"
proof (cases x)
  case (StartListening onResult onError start_throws)
  with assms show ?thesis
    by (auto simp: startListening_def startListening_with_def init_speech_def Let_def
        utterances_def split: option.splits if_splits)
next
  case Init
  with assms show ?thesis by (auto simp: init_speech_def utterances_def)
next
  case StopListening
  with assms show ?thesis by (auto simp: stopListening_def utterances_def)
next
  case (Speak tx onEnd)
  with assms show ?thesis by (auto simp: speak_def)
next
  case StopSpeaking
  with assms show ?thesis by (auto simp: stopSpeaking_def utterances_def split: option.splits)
next
  case (SetSpeechEnabled enabled)
  with assms show ?thesis
    by (auto simp: setSpeechEnabled_def stopSpeaking_def utterances_def split: option.splits)
next
  case (OnResult which transcript)
  with assms show ?thesis
    by (auto simp: recognition_onresult_def utterances_def split: option.splits)
next
  case (OnError which err)
  with assms show ?thesis
    by (auto simp: recognition_onerror_def utterances_def split: option.splits)
next
  case (OnEnd which)
  with assms show ?thesis
    by (auto simp: recognition_onend_def utterances_def split: option.splits)
next
  case UtteranceEnded
  with assms show ?thesis
    by (auto simp: utterance_ended_def utterances_def split: option.splits list.splits)
qed

lemma silent_run:
  "\<not> isSpeechEnabled s \<Longrightarrow> utterances s = [] \<Longrightarrow> SetSpeechEnabled True \<notin> set ops \<Longrightarrow>
   \<not> isSpeechEnabled (speech_run ops s) \<and> utterances (speech_run ops s) = []"
proof (induction ops arbitrary: s)
  case Nil
  then show ?case by simp
next
  case (Cons x xs)
  from Cons.prems have "x \<noteq> SetSpeechEnabled True" by auto
  with Cons.prems have "\<not> isSpeechEnabled (fst (speech_step x s))
      \<and> utterances (fst (speech_step x s)) = []"
    by (simp add: silent_step)
  with Cons.IH [of "fst (speech_step x s)"] Cons.prems show ?case by simp
qed

lemma setSpeechEnabled_False:
  "\<not> isSpeechEnabled (setSpeechEnabled False s) \<and> utterances (setSpeechEnabled False s) = []"
  by (cases "synthesis s") (simp_all add: setSpeechEnabled_def stopSpeaking_def utterances_def)

text \<open>
  Claim C8: \<open>setSpeechEnabled(false)\<close> leaves no utterance being spoken or queued, and
  after any further calls and platform events with no \<open>setSpeechEnabled(true)\<close> among
  them speech output is still disabled, nothing is being spoken, and a call of \<open>speak\<close>
  changes nothing.
\<close>

theorem speech_disabled_until_enabled:
  assumes "SetSpeechEnabled True \<notin> set ops"
  shows "utterances (setSpeechEnabled False s) = []
    \<and> \<not> isSpeechEnabled (speech_run ops (setSpeechEnabled False s))
    \<and> utterances (speech_run ops (setSpeechEnabled False s)) = []
    \<and> speak tx onEnd (speech_run ops (setSpeechEnabled False s))
        = speech_run ops (setSpeechEnabled False s)"
proof -
  have d: "\<not> isSpeechEnabled (speech_run ops (setSpeechEnabled False s))
      \<and> utterances (speech_run ops (setSpeechEnabled False s)) = []"
    using setSpeechEnabled_False [of s] assms by (simp add: silent_run)
  then have "speak tx onEnd (speech_run ops (setSpeechEnabled False s))
      = speech_run ops (setSpeechEnabled False s)"
    by (simp add: speak_def)
  with d setSpeechEnabled_False [of s] show ?thesis by simp
qed

text \<open>
  An utterance is being spoken when speech output is disabled; a \<open>speak\<close>, the end of
  an utterance and a \<open>stopSpeaking\<close> follow.
\<close>

theorem speech_disabled_until_enabled_witness:
  "utterances (speak (ascii ''one'') None (speech_loaded True True)) \<noteq> []
   \<and> utterances (setSpeechEnabled False (speak (ascii ''one'') None (speech_loaded True True))) = []
   \<and> speak (ascii ''three'') None
        (speech_run [Speak (ascii ''two'') None, UtteranceEnded, StopSpeaking]
          (setSpeechEnabled False (speak (ascii ''one'') None (speech_loaded True True))))
      = speech_run [Speak (ascii ''two'') None, UtteranceEnded, StopSpeaking]
          (setSpeechEnabled False (speak (ascii ''one'') None (speech_loaded True True)))"
proof -
  have n: "SetSpeechEnabled True
      \<notin> set [Speak (ascii ''two'') None, UtteranceEnded, StopSpeaking]"
    by simp
  have u: "utterances (speak (ascii ''one'') None (speech_loaded True True)) \<noteq> []"
    by (simp add: utterances_def speak_def speech_loaded_def)
  from u speech_disabled_until_enabled [OF n] show ?thesis by blast
qed

section \<open>Properties of the simulated backend\<close>

lemma str_includes_self: "str_includes (c # cs) (c # cs)"
proof -
  have "starts_with xs xs" for xs :: jsstring
    by (induction xs) simp_all
  then show ?thesis by simp
qed

lemma mockPost_keeps_user_token:
  "mock_user (snd (mockPost pf path body md)) = mock_user md
   \<and> mock_token (snd (mockPost pf path body md)) = mock_token md"
  by (simp add: mockPost_def Let_def split: jsvalue.splits)

lemma api_step_keeps_user_token:
  "mock_user (MOCK_DATA (api_step x st)) = mock_user (MOCK_DATA st)
   \<and> mock_token (MOCK_DATA (api_step x st)) = mock_token (MOCK_DATA st)"
proof (cases x)
  case (SetBaseUrl url)
  then show ?thesis by (simp add: setBaseUrl_def)
next
  case (SetMockMode useMock)
  then show ?thesis by (simp add: setMockMode_def)
next
  case (Post pf path body)
  show ?thesis
  proof (cases "USE_MOCK st")
    case True
    with Post mockPost_keeps_user_token [of pf path body "MOCK_DATA st"] show ?thesis
      by (cases "mockPost pf path body (MOCK_DATA st)") (simp add: post_def)
  next
    case False
    with Post show ?thesis
      by (simp add: post_def split: fetch_outcome.splits option.splits)
  qed
qed

lemma api_run_keeps_user_token:
  "mock_user (MOCK_DATA (api_run ops st)) = mock_user (MOCK_DATA st)
   \<and> mock_token (MOCK_DATA (api_run ops st)) = mock_token (MOCK_DATA st)"
proof (induction ops arbitrary: st)
  case Nil
  show ?case by simp
next
  case (Cons x xs)
  from Cons.IH [of "api_step x st"] api_step_keeps_user_token [of x st]
  show ?case by simp
qed

lemma login_path: "str_includes (ascii ''/auth/login'') (ascii ''/auth/login'')"
  unfolding ascii_def by (simp add: str_includes_self)

text \<open>
  Claim C9: in simulated mode, whatever calls came before, \<open>login\<close> returns a promise
  that resolves (it is never rejected) from the timer of 500 with \<open>user_id\<close> 1, the
  fixture's token and the fixture's user record, for every email and password, and
  changes nothing in the client.
\<close>

theorem login_simulated:
  assumes "USE_MOCK (api_run ops api_loaded)"
  shows "login pf email password (api_run ops api_loaded) =
           (ResolvesAfter 500
              (JObj [(ascii ''user_id'', JNum 1),
                     (ascii ''access_token'', JStr (ascii ''mock_jwt_token_12345'')),
                     (ascii ''user'',
                      JObj [(ascii ''id'', JNum 1),
                            (ascii ''name'', JStr (ascii ''John Doe'')),
                            (ascii ''email'', JStr (ascii ''john@example.com'')),
                            (ascii ''balance'', JNum 250000)])]),
            api_run ops api_loaded)"
proof -
  have u: "mock_user (MOCK_DATA (api_run ops api_loaded)) = fixture_user"
    and t: "mock_token (MOCK_DATA (api_run ops api_loaded)) = fixture_token"
    using api_run_keeps_user_token [of ops api_loaded]
    by (simp_all add: api_loaded_def MOCK_DATA_fixture_def)
  have i: "get_prop fixture_user (ascii ''id'') = JNum 1"
    by (simp add: get_prop_def fixture_user_def ascii_def)
  from assms u t i show ?thesis
    by (simp add: login_def post_def mockPost_def login_path fixture_user_def
        fixture_token_def)
qed

text \<open>The spec's example: mock mode switched on, then a login with the password \<open>x\<close>.\<close>

theorem login_simulated_witness:
  "USE_MOCK (api_run [SetMockMode True] api_loaded)
   \<and> login \<lparr>toLowerCase = (\<lambda>s. s), today = ascii ''2025-10-18'',
               fetched = FetchFails 0 (ascii ''Failed to fetch'')\<rparr>
        (JStr (ascii ''john@example.com'')) (JStr (ascii ''x''))
        (api_run [SetMockMode True] api_loaded) =
      (ResolvesAfter 500
         (JObj [(ascii ''user_id'', JNum 1),
                (ascii ''access_token'', JStr (ascii ''mock_jwt_token_12345'')),
                (ascii ''user'',
                 JObj [(ascii ''id'', JNum 1),
                       (ascii ''name'', JStr (ascii ''John Doe'')),
                       (ascii ''email'', JStr (ascii ''john@example.com'')),
                       (ascii ''balance'', JNum 250000)])]),
       api_run [SetMockMode True] api_loaded)"
proof -
  have m: "USE_MOCK (api_run [SetMockMode True] api_loaded)"
    by (simp add: setMockMode_def)
  from m login_simulated [OF m] show ?thesis by simp
qed

section \<open>Properties of the chat controller\<close>



















text \<open>
  Turns that do not overlap can leave two indicators as well: a message whose markup
  creates an element with the id of its own indicator makes \<open>removeTypingIndicator\<close>
  take that element, which comes first in the document, and the indicator stays when
  the next message is sent.
\<close>

lemma markup_keeps_indicator:
  "in_flight (run [Send 5, ReplySettled 0 Rejected, Typed (ascii ''b'')] markup_chat) = []
   \<and> indicator_ids (messages (page
        (run [Send 5, ReplySettled 0 Rejected, Typed (ascii ''b''), Send 6] markup_chat)))
      = [5, 6]"
  by (simp add: markup_chat_def chat_opened_def begin_turn_def resume_turn_def waits_for_def
      handleSendMessage_def handleSendMessage_settled_def handleSuggestedAction_def
      handleSuggestedAction_chosen_def trim_def is_whitespace_def ascii_def Let_def
      addMessage_def showTypingIndicator_def removeTypingIndicator_def getCurrentUserId_def
      sample_html_def sample_markup_def sample_response_def sample_action_def plain_def
      msg_apology_def)



text \<open>
  Claim C5: when the trimmed value of the input box is empty, \<open>handleSendMessage\<close>
  returns at once with the state as it was, so a submission by the send button or the
  Enter key changes nothing at all; a transcript whose trimmed value is empty is put
  into the input box, and no message is appended, no endpoint is called and no turn
  starts.
\<close>

theorem empty_submission_noop:
  "(trim (messageInput (page c)) = [] \<longrightarrow>
      handleSendMessage now (page c) = (page c, None) \<and> step (Send now) c = c)
   \<and> (trim transcript = [] \<longrightarrow>
      messages (page (step (Transcript transcript now) c)) = messages (page c)
      \<and> api_calls (page (step (Transcript transcript now) c)) = api_calls (page c)
      \<and> in_flight (step (Transcript transcript now) c) = in_flight c)"
  by (simp add: handleSendMessage_def micOnResult_def begin_turn_def)

theorem empty_submission_noop_witness:
  "trim (messageInput (page (step (Typed [32, 9, 32]) (chat_opened sample_html (ascii ''Hello'') None)))) = []
   \<and> trim [32, 10] = []
   \<and> step (Send 7) (step (Typed [32, 9, 32]) (chat_opened sample_html (ascii ''Hello'') None))
     = step (Typed [32, 9, 32]) (chat_opened sample_html (ascii ''Hello'') None)
   \<and> messages (page (step (Transcript [32, 10] 7)
        (step (Typed [32, 9, 32]) (chat_opened sample_html (ascii ''Hello'') None))))
     = messages (page (step (Typed [32, 9, 32]) (chat_opened sample_html (ascii ''Hello'') None)))
   \<and> api_calls (page (step (Transcript [32, 10] 7)
        (step (Typed [32, 9, 32]) (chat_opened sample_html (ascii ''Hello'') None))))
     = api_calls (page (step (Typed [32, 9, 32]) (chat_opened sample_html (ascii ''Hello'') None)))
   \<and> in_flight (step (Transcript [32, 10] 7)
        (step (Typed [32, 9, 32]) (chat_opened sample_html (ascii ''Hello'') None)))
     = in_flight (step (Typed [32, 9, 32]) (chat_opened sample_html (ascii ''Hello'') None))"
proof -
  have a: "trim (messageInput (page (step (Typed [32, 9, 32])
      (chat_opened sample_html (ascii ''Hello'') None)))) = []"
    by (simp add: trim_def is_whitespace_def)
  have b: "trim [32, 10] = []"
    by (simp add: trim_def is_whitespace_def)
  from a b empty_submission_noop
      [of "step (Typed [32, 9, 32]) (chat_opened sample_html (ascii ''Hello'') None)" 7 "[32, 10]"]
  show ?thesis
    by blast
qed











end
